theory Spec2Isabelle
  imports Complex_Main
begin

section \<open>GraphicsNode: the view of one node of a node-graph editor\<close>

text \<open>
  A shallow embedding of \<^verbatim>\<open>src/GNodeGUI/src/graphics_node.cpp\<close>. Each member function
  of \<^verbatim>\<open>GraphicsNode\<close> is a HOL function of the same name over a record of the object's
  members. Objects that alias each other (the origin of a drag, the view a relayed event
  reaches, the target under the pointer) live in a scene, a store from addresses to items.
  A read of a \<^verbatim>\<open>std::vector\<close> past its size, and a request to the node proxy for a port
  it does not have, are results of their own (\<open>Inl\<close> of a fault), so that every such read
  of the source is a branch of the model.

  Left out, because they change no member and emit no signal: the \<^verbatim>\<open>SPDLOG\<close> trace
  lines, \<^verbatim>\<open>update()\<close> (a repaint request), \<^verbatim>\<open>event->accept()\<close> and the calls of the
  base class \<^verbatim>\<open>QGraphicsRectItem\<close>.
\<close>

subsection \<open>Qt value types\<close>

type_synonym QPointF = "real \<times> real"

definition QPointF_plus :: "QPointF \<Rightarrow> QPointF \<Rightarrow> QPointF" where
  "QPointF_plus p q = (fst p + fst q, snd p + snd q)"

definition QPointF_minus :: "QPointF \<Rightarrow> QPointF \<Rightarrow> QPointF" where
  "QPointF_minus p q = (fst p - fst q, snd p - snd q)"

record QRectF =
  rect_x :: real
  rect_y :: real
  rect_w :: real
  rect_h :: real

text \<open>
  \<^verbatim>\<open>QRectF::contains(QPointF)\<close> is Qt's: the edges belong to the rectangle, a negative
  width or height is normalised, and a rectangle of width or height zero contains nothing.
  Coordinates are \<^verbatim>\<open>qreal\<close> in Qt and \<^typ>\<open>real\<close> here; no property below depends on
  the arithmetic of the test, only on its answer.
\<close>

definition QRectF_contains :: "QRectF \<Rightarrow> QPointF \<Rightarrow> bool" where
  "QRectF_contains r p =
     (let l = (if rect_w r < 0 then rect_x r + rect_w r else rect_x r);
          rr = (if rect_w r < 0 then rect_x r else rect_x r + rect_w r);
          t = (if rect_h r < 0 then rect_y r + rect_h r else rect_y r);
          b = (if rect_h r < 0 then rect_y r else rect_y r + rect_h r)
      in if l = rr then False
         else if fst p < l \<or> rr < fst p then False
         else if t = b then False
         else if snd p < t \<or> b < snd p then False
         else True)"

definition QRectF_center :: "QRectF \<Rightarrow> QPointF" where
  "QRectF_center r = (rect_x r + rect_w r / 2, rect_y r + rect_h r / 2)"

subsection \<open>The node proxy\<close>

datatype PortType = IN | OUT

record Port =
  port_type :: PortType
  data_type :: string
  port_caption :: string

text \<open>
  Modelled from the spec: the \<^verbatim>\<open>NodeProxy\<close> class behind \<^verbatim>\<open>get_proxy_ref()\<close> is not
  among the sources. The spec (section 6) lists what the view reads from it: the port
  count, each port's direction, data-type tag and caption, the node's caption and its
  stable identifier. A proxy is therefore the list of its ports with the two strings, and
  an accessor asked for a port outside the port count has nothing to return (\<open>None\<close>).
\<close>

record NodeProxy =
  proxy_id :: string
  proxy_caption :: string
  proxy_ports :: "Port list"

definition get_id :: "NodeProxy \<Rightarrow> string" where
  "get_id p = proxy_id p"

definition get_caption :: "NodeProxy \<Rightarrow> string" where
  "get_caption p = proxy_caption p"

definition get_nports :: "NodeProxy \<Rightarrow> int" where
  "get_nports p = int (length (proxy_ports p))"

definition get_port :: "NodeProxy \<Rightarrow> int \<Rightarrow> Port option" where
  "get_port p k =
     (if 0 \<le> k \<and> k < get_nports p then Some (proxy_ports p ! nat k) else None)"

definition get_port_type :: "NodeProxy \<Rightarrow> int \<Rightarrow> PortType option" where
  "get_port_type p k = map_option port_type (get_port p k)"

definition get_data_type :: "NodeProxy \<Rightarrow> int \<Rightarrow> string option" where
  "get_data_type p k = map_option data_type (get_port p k)"

definition get_port_caption :: "NodeProxy \<Rightarrow> int \<Rightarrow> string option" where
  "get_port_caption p k = map_option port_caption (get_port p k)"

subsection \<open>The view\<close>

text \<open>
  \<^verbatim>\<open>GraphicsNodeGeometry\<close> is computed outside these sources; the view only reads its
  rectangles, so the geometry is the record of them.
\<close>

record GraphicsNodeGeometry =
  full_width :: real
  full_height :: real
  body_rect :: QRectF
  caption_pos :: QPointF
  port_label_rects :: "QRectF list"
  port_rects :: "QRectF list"

record GraphicsNode =
  p_node_proxy :: NodeProxy
  geometry :: GraphicsNodeGeometry
  is_port_hovered :: "bool list"
  is_node_hovered :: bool
  has_connection_started :: bool
  port_index_from :: int
  data_type_connecting :: string
  ItemIsMovable :: bool
  isSelected :: bool
  scenePos :: QPointF

datatype fault =
    VectorOutOfRange nat
  | PortOutOfRange int
  | NoSuchNode nat

text \<open>
  \<^verbatim>\<open>std::find(begin, end, true)\<close> and the distance to its result, or \<open>-1\<close>.
\<close>

fun std_find_true :: "bool list \<Rightarrow> nat option" where
  "std_find_true [] = None"
| "std_find_true (b # bs) =
     (if b then Some 0 else map_option Suc (std_find_true bs))"

definition get_hovered_port_index :: "GraphicsNode \<Rightarrow> int" where
  "get_hovered_port_index v =
     (case std_find_true (is_port_hovered v) of
        Some i \<Rightarrow> int i
      | None \<Rightarrow> - 1)"

definition reset_is_port_hovered :: "GraphicsNode \<Rightarrow> GraphicsNode" where
  "reset_is_port_hovered v =
     v\<lparr>is_port_hovered := replicate (length (is_port_hovered v)) False\<rparr>"

definition hoverEnterEvent :: "GraphicsNode \<Rightarrow> GraphicsNode" where
  "hoverEnterEvent v = v\<lparr>is_node_hovered := True\<rparr>"

definition hoverLeaveEvent :: "GraphicsNode \<Rightarrow> GraphicsNode" where
  "hoverLeaveEvent v = v\<lparr>is_node_hovered := False\<rparr>"

subsection \<open>The hover tracker\<close>

text \<open>
  The two loops of \<^verbatim>\<open>update_is_port_hovered\<close>. Each runs over the port rectangles from
  index \<open>k\<close> on; \<open>Inr (Some hs)\<close> is its \<^verbatim>\<open>return true\<close> with the flags it leaves,
  \<open>Inr None\<close> is falling out of the loop, and \<open>Inl\<close> is an access of
  \<^verbatim>\<open>is_port_hovered[k]\<close> past the vector's size.
\<close>

fun hover_hit_loop ::
  "nat \<Rightarrow> QRectF list \<Rightarrow> QPointF \<Rightarrow> bool list \<Rightarrow> fault + bool list option" where
  "hover_hit_loop k [] item_pos hs = Inr None"
| "hover_hit_loop k (r # rs) item_pos hs =
     (if QRectF_contains r item_pos
      then (if k < length hs then Inr (Some (hs[k := True])) else Inl (VectorOutOfRange k))
      else hover_hit_loop (Suc k) rs item_pos hs)"

fun hover_left_loop ::
  "nat \<Rightarrow> QRectF list \<Rightarrow> bool list \<Rightarrow> fault + bool list option" where
  "hover_left_loop k [] hs = Inr None"
| "hover_left_loop k (r # rs) hs =
     (if k < length hs
      then (if hs ! k then Inr (Some (hs[k := False])) else hover_left_loop (Suc k) rs hs)
      else Inl (VectorOutOfRange k))"

definition update_is_port_hovered ::
  "GraphicsNode \<Rightarrow> QPointF \<Rightarrow> fault + (bool \<times> GraphicsNode)" where
  "update_is_port_hovered v item_pos =
     (case hover_hit_loop 0 (port_rects (geometry v)) item_pos (is_port_hovered v) of
        Inl f \<Rightarrow> Inl f
      | Inr (Some hs) \<Rightarrow> Inr (True, v\<lparr>is_port_hovered := hs\<rparr>)
      | Inr None \<Rightarrow>
          (case hover_left_loop 0 (port_rects (geometry v)) (is_port_hovered v) of
             Inl f \<Rightarrow> Inl f
           | Inr (Some hs) \<Rightarrow> Inr (True, v\<lparr>is_port_hovered := hs\<rparr>)
           | Inr None \<Rightarrow> Inr (False, v)))"

text \<open>
  \<^verbatim>\<open>hoverMoveEvent\<close>: the event's position is in item coordinates; it is mapped to the
  scene and back before the hover tracker runs. \<^verbatim>\<open>mapToScene\<close> is Qt's; a view is
  neither rotated nor scaled nor the child of another item, so it adds the view's scene
  position.

  Both steps are done in doubles: the machine's sum or difference of two doubles is the
  exact one rounded to a double, so the round trip need not give back the position it
  started from. The rounding is the parameter \<open>fl\<close> of the handler, and nothing is assumed
  of it: the item position is whatever the two rounded steps yield.
\<close>

definition to_double :: "(real \<Rightarrow> real) \<Rightarrow> QPointF \<Rightarrow> QPointF" where
  "to_double fl p = (fl (fst p), fl (snd p))"

definition mapToScene :: "(real \<Rightarrow> real) \<Rightarrow> GraphicsNode \<Rightarrow> QPointF \<Rightarrow> QPointF" where
  "mapToScene fl v pos = to_double fl (QPointF_plus pos (scenePos v))"

definition hoverMoveEvent ::
  "(real \<Rightarrow> real) \<Rightarrow> GraphicsNode \<Rightarrow> QPointF \<Rightarrow> fault + GraphicsNode" where
  "hoverMoveEvent fl v pos =
     (let scene_pos = mapToScene fl v pos;
          item_pos = to_double fl (QPointF_minus scene_pos (scenePos v))
      in case update_is_port_hovered v item_pos of
           Inl f \<Rightarrow> Inl f
         | Inr (changed, v') \<Rightarrow> Inr v')"

subsection \<open>The scene\<close>

text \<open>
  A scene holds its items by address, front to back. An item is a \<^verbatim>\<open>GraphicsNode\<close> or
  something else (a link, a frame), of which only the shape matters here.
  \<^verbatim>\<open>dynamic_cast<GraphicsNode *>(item)\<close> is \<open>dynamic_cast_GraphicsNode\<close>.

  \<^verbatim>\<open>QGraphicsScene::items()\<close> and \<^verbatim>\<open>QGraphicsScene::items(pos)\<close> are Qt's: all the
  items, and the items whose shape contains \<open>pos\<close> in descending stacking order. The shape
  of a view is the rectangle its constructor sets with \<^verbatim>\<open>setRect\<close>, placed at the view's
  scene position.
\<close>

datatype QGraphicsItem = NodeItem GraphicsNode | OtherItem QRectF

type_synonym QGraphicsScene = "(nat \<times> QGraphicsItem) list"

fun dynamic_cast_GraphicsNode :: "QGraphicsItem \<Rightarrow> GraphicsNode option" where
  "dynamic_cast_GraphicsNode (NodeItem v) = Some v"
| "dynamic_cast_GraphicsNode (OtherItem r) = None"

definition rect :: "GraphicsNode \<Rightarrow> QRectF" where
  "rect v = \<lparr>rect_x = 0, rect_y = 0,
             rect_w = full_width (geometry v), rect_h = full_height (geometry v)\<rparr>"

fun item_contains :: "QGraphicsItem \<Rightarrow> QPointF \<Rightarrow> bool" where
  "item_contains (NodeItem v) scene_pos =
     QRectF_contains (rect v) (QPointF_minus scene_pos (scenePos v))"
| "item_contains (OtherItem r) scene_pos = QRectF_contains r scene_pos"

definition scene_items :: "QGraphicsScene \<Rightarrow> (nat \<times> QGraphicsItem) list" where
  "scene_items sc = sc"

definition scene_items_at :: "QGraphicsScene \<Rightarrow> QPointF \<Rightarrow> (nat \<times> QGraphicsItem) list" where
  "scene_items_at sc scene_pos = filter (\<lambda>(a, item). item_contains item scene_pos) sc"

definition node_at :: "QGraphicsScene \<Rightarrow> nat \<Rightarrow> GraphicsNode option" where
  "node_at sc a =
     (case map_of sc a of
        None \<Rightarrow> None
      | Some item \<Rightarrow> dynamic_cast_GraphicsNode item)"

text \<open>A write through a pointer to a view: the view at address \<open>a\<close> becomes \<open>f\<close> of itself.\<close>

fun modify_item :: "nat \<Rightarrow> (GraphicsNode \<Rightarrow> GraphicsNode) \<Rightarrow> nat \<times> QGraphicsItem \<Rightarrow> nat \<times> QGraphicsItem" where
  "modify_item a f (a', NodeItem v) = (a', NodeItem (if a' = a then f v else v))"
| "modify_item a f (a', OtherItem r) = (a', OtherItem r)"

definition modify_node ::
  "QGraphicsScene \<Rightarrow> nat \<Rightarrow> (GraphicsNode \<Rightarrow> GraphicsNode) \<Rightarrow> QGraphicsScene" where
  "modify_node sc a f = map (modify_item a f) sc"

definition set_node :: "QGraphicsScene \<Rightarrow> nat \<Rightarrow> GraphicsNode \<Rightarrow> QGraphicsScene" where
  "set_node sc a v = modify_node sc a (\<lambda>_. v)"

subsection \<open>Events and signals\<close>

datatype QEventType =
    GraphicsSceneMouseMove
  | GraphicsSceneMousePress
  | GraphicsSceneMouseRelease
  | OtherEvent

datatype MouseButton = LeftButton | RightButton | MiddleButton

record QGraphicsSceneMouseEvent =
  ev_type :: QEventType
  ev_button :: MouseButton
  ev_scenePos :: QPointF

text \<open>The views in a signal are pointers: addresses of the scene.\<close>

datatype signal =
    connection_started nat int
  | connection_finished nat int nat int
  | connection_dropped nat int QPointF
  | right_clicked string QPointF

subsection \<open>Press\<close>

definition mousePressEvent ::
  "nat \<Rightarrow> QGraphicsSceneMouseEvent \<Rightarrow> QGraphicsScene \<Rightarrow> fault + (signal list \<times> QGraphicsScene)" where
  "mousePressEvent this event sc =
     (case node_at sc this of
        None \<Rightarrow> Inl (NoSuchNode this)
      | Some v \<Rightarrow>
          if ev_button event = LeftButton then
            (let hovered_port_index = get_hovered_port_index v in
             if 0 \<le> hovered_port_index then
               (case get_data_type (p_node_proxy v) hovered_port_index of
                  None \<Rightarrow> Inl (PortOutOfRange hovered_port_index)
                | Some dt \<Rightarrow>
                    Inr ([connection_started this hovered_port_index],
                         set_node sc this
                           (v\<lparr>has_connection_started := True,
                              ItemIsMovable := False,
                              port_index_from := hovered_port_index,
                              data_type_connecting := dt\<rparr>)))
             else Inr ([], sc))
          else if ev_button event = RightButton then
            Inr ([right_clicked (get_id (p_node_proxy v)) (scenePos v)], sc)
          else Inr ([], sc))"

subsection \<open>Release\<close>

text \<open>
  The loop over \<^verbatim>\<open>items_under_mouse\<close>: the signal it emits, if any, and \<^verbatim>\<open>is_dropped\<close>
  when it ends. Both branches of the first item that is a view \<^verbatim>\<open>break\<close>.
\<close>

fun items_under_mouse_loop ::
  "nat \<Rightarrow> int \<Rightarrow> (nat \<times> QGraphicsItem) list \<Rightarrow> signal list \<times> bool" where
  "items_under_mouse_loop this pidx_from [] = ([], True)"
| "items_under_mouse_loop this pidx_from ((a, item) # items) =
     (case dynamic_cast_GraphicsNode item of
        Some target_node \<Rightarrow>
          (let hovered_port_index = get_hovered_port_index target_node in
           if 0 \<le> hovered_port_index
           then ([connection_finished this pidx_from a hovered_port_index], False)
           else ([], True))
      | None \<Rightarrow> items_under_mouse_loop this pidx_from items)"

text \<open>The clean-up loop over \<^verbatim>\<open>scene()->items()\<close>.\<close>

fun clean_up_item :: "nat \<times> QGraphicsItem \<Rightarrow> nat \<times> QGraphicsItem" where
  "clean_up_item (a, item) =
     (case dynamic_cast_GraphicsNode item of
        Some node \<Rightarrow> (a, NodeItem (node\<lparr>data_type_connecting := []\<rparr>))
      | None \<Rightarrow> (a, item))"

definition clean_up_loop :: "QGraphicsScene \<Rightarrow> QGraphicsScene" where
  "clean_up_loop sc = map clean_up_item (scene_items sc)"

definition mouseReleaseEvent ::
  "nat \<Rightarrow> QGraphicsSceneMouseEvent \<Rightarrow> QGraphicsScene \<Rightarrow> fault + (signal list \<times> QGraphicsScene)" where
  "mouseReleaseEvent this event sc =
     (case node_at sc this of
        None \<Rightarrow> Inl (NoSuchNode this)
      | Some v \<Rightarrow>
          if ev_button event = LeftButton \<and> has_connection_started v then
            (let items_under_mouse = scene_items_at sc (ev_scenePos event);
                 (finished, is_dropped) =
                    items_under_mouse_loop this (port_index_from v) items_under_mouse;
                 sc1 = modify_node sc this reset_is_port_hovered;
                 dropped =
                   (if is_dropped
                    then [connection_dropped this (port_index_from v) (ev_scenePos event)]
                    else []);
                 sc2 = modify_node sc1 this (\<lambda>n. n\<lparr>has_connection_started := False\<rparr>);
                 sc3 = clean_up_loop sc2;
                 sc4 = modify_node sc3 this (\<lambda>n. n\<lparr>data_type_connecting := []\<rparr>);
                 sc5 = modify_node sc4 this (\<lambda>n. n\<lparr>ItemIsMovable := True\<rparr>)
             in Inr (finished @ dropped, sc5))
          else Inr ([], sc))"

subsection \<open>The relay\<close>

text \<open>
  The loop of \<^verbatim>\<open>sceneEventFilter\<close> over the ports \<open>ks\<close> of the view the event reaches,
  on its hover flags \<open>hs\<close>; \<open>node\<close> is the watched view, the origin of the drag.
\<close>

fun compatibility_loop ::
  "nat list \<Rightarrow> GraphicsNode \<Rightarrow> NodeProxy \<Rightarrow> bool list \<Rightarrow> fault + bool list" where
  "compatibility_loop [] node proxy hs = Inr hs"
| "compatibility_loop (k # ks) node proxy hs =
     (if k < length hs then
        (if hs ! k then
           (let from_pidx = port_index_from node in
            case get_port_type (p_node_proxy node) from_pidx of
              None \<Rightarrow> Inl (PortOutOfRange from_pidx)
            | Some from_ptype \<Rightarrow>
            (case get_port_type proxy (int k) of
              None \<Rightarrow> Inl (PortOutOfRange (int k))
            | Some to_ptype \<Rightarrow>
            (case get_data_type (p_node_proxy node) from_pidx of
              None \<Rightarrow> Inl (PortOutOfRange from_pidx)
            | Some from_pdata \<Rightarrow>
            (case get_data_type proxy (int k) of
              None \<Rightarrow> Inl (PortOutOfRange (int k))
            | Some to_pdata \<Rightarrow>
                if from_ptype = to_ptype \<or> from_pdata \<noteq> to_pdata
                then compatibility_loop ks node proxy (hs[k := False])
                else compatibility_loop ks node proxy hs))))
         else compatibility_loop ks node proxy hs)
      else Inl (VectorOutOfRange k))"

definition sceneEventFilter ::
  "nat \<Rightarrow> nat \<Rightarrow> QGraphicsSceneMouseEvent \<Rightarrow> QGraphicsScene \<Rightarrow> fault + QGraphicsScene" where
  "sceneEventFilter this watched event sc =
     (case node_at sc this of
        None \<Rightarrow> Inl (NoSuchNode this)
      | Some v \<Rightarrow>
          (case node_at sc watched of
             None \<Rightarrow> Inr sc
           | Some node \<Rightarrow>
               if ev_type event = GraphicsSceneMouseMove \<and> has_connection_started node then
                 (let item_pos = QPointF_minus (ev_scenePos event) (scenePos v);
                      v1 = (if data_type_connecting v \<noteq> data_type_connecting node
                            then v\<lparr>data_type_connecting := data_type_connecting node\<rparr>
                            else v)
                  in case update_is_port_hovered v1 item_pos of
                       Inl f \<Rightarrow> Inl f
                     | Inr (changed, v2) \<Rightarrow>
                         if changed then
                           (case compatibility_loop
                                   [0 ..< nat (get_nports (p_node_proxy v2))]
                                   node (p_node_proxy v2) (is_port_hovered v2) of
                              Inl f \<Rightarrow> Inl f
                            | Inr hs \<Rightarrow> Inr (set_node sc this (v2\<lparr>is_port_hovered := hs\<rparr>)))
                         else Inr (set_node sc this v2))
               else Inr sc))"

subsection \<open>Painting\<close>

text \<open>
  The constants of \<^verbatim>\<open>style.node\<close> and the function \<^verbatim>\<open>get_color_from_data_type\<close> come
  from \<^verbatim>\<open>style.hpp\<close>, which is not among the sources: they are parameters of \<open>paint\<close>.
  The painter is the list of its draw calls, each with the pen and the brush in force
  when it is made. \<^verbatim>\<open>setPen(color)\<close> is a pen of width 1.
\<close>

type_synonym QColor = string

record NodeStyle =
  color_bg :: QColor
  color_selected :: QColor
  color_caption :: QColor
  color_border :: QColor
  color_border_hovered :: QColor
  color_port_hovered :: QColor
  color_port_not_selectable :: QColor
  thickness_selected :: real
  thickness_hovered :: real
  thickness_border :: real
  rounding_radius :: real
  port_radius :: real
  port_radius_not_selectable :: real

datatype QPen = NoPen | Pen QColor real

datatype QBrush = NoBrush | Brush QColor

datatype AlignmentFlag = AlignLeft | AlignRight

datatype draw_call =
    drawRoundedRect QPen QBrush QRectF real real
  | drawText QPen QPointF string
  | drawTextIn QPen QRectF AlignmentFlag string
  | drawEllipse QPen QBrush QPointF real real

definition border_pen :: "NodeStyle \<Rightarrow> GraphicsNode \<Rightarrow> QPen" where
  "border_pen style v =
     (if isSelected v then Pen (color_selected style) (thickness_selected style)
      else if is_node_hovered v then Pen (color_border_hovered style) (thickness_hovered style)
      else Pen (color_border style) (thickness_border style))"

fun paint_ports_loop ::
  "NodeStyle \<Rightarrow> (string \<Rightarrow> QColor) \<Rightarrow> GraphicsNode \<Rightarrow> nat list \<Rightarrow> fault + draw_call list" where
  "paint_ports_loop style get_color_from_data_type v [] = Inr []"
| "paint_ports_loop style get_color_from_data_type v (k # ks) =
     (case get_port_type (p_node_proxy v) (int k) of
        None \<Rightarrow> Inl (PortOutOfRange (int k))
      | Some ptype \<Rightarrow>
     (let align_flag = (if ptype = IN then AlignLeft else AlignRight) in
      if \<not> k < length (port_label_rects (geometry v)) then Inl (VectorOutOfRange k) else
     (case get_port_caption (p_node_proxy v) (int k) of
        None \<Rightarrow> Inl (PortOutOfRange (int k))
      | Some caption \<Rightarrow>
     (let label = drawTextIn (Pen ''white'' 1) (port_label_rects (geometry v) ! k)
                    align_flag caption in
      if \<not> k < length (is_port_hovered v) then Inl (VectorOutOfRange k) else
     (let pen =
            (if is_port_hovered v ! k
             then Pen (color_port_hovered style) (thickness_selected style)
             else if is_node_hovered v
             then Pen (color_border_hovered style) (thickness_hovered style)
             else Pen (color_border style) (thickness_border style)) in
      case get_data_type (p_node_proxy v) (int k) of
        None \<Rightarrow> Inl (PortOutOfRange (int k))
      | Some dt \<Rightarrow>
     (let (brush, radius) =
            (if data_type_connecting v \<noteq> [] \<and> dt \<noteq> data_type_connecting v
             then (Brush (color_port_not_selectable style), port_radius_not_selectable style)
             else (Brush (get_color_from_data_type dt), port_radius style)) in
      if \<not> k < length (port_rects (geometry v)) then Inl (VectorOutOfRange k) else
     (let port = drawEllipse pen brush (QRectF_center (port_rects (geometry v) ! k))
                   radius radius in
      case paint_ports_loop style get_color_from_data_type v ks of
        Inl f \<Rightarrow> Inl f
      | Inr calls \<Rightarrow> Inr (label # port # calls))))))))"

definition paint ::
  "NodeStyle \<Rightarrow> (string \<Rightarrow> QColor) \<Rightarrow> GraphicsNode \<Rightarrow> fault + draw_call list" where
  "paint style get_color_from_data_type v =
     (let background = drawRoundedRect NoPen (Brush (color_bg style))
                         (body_rect (geometry v))
                         (rounding_radius style) (rounding_radius style);
          caption = drawText
                      (Pen (if isSelected v then color_selected style
                            else color_caption style) 1)
                      (caption_pos (geometry v)) (get_caption (p_node_proxy v));
          border = drawRoundedRect (border_pen style v) NoBrush
                     (body_rect (geometry v))
                     (rounding_radius style) (rounding_radius style)
      in case paint_ports_loop style get_color_from_data_type v
                [0 ..< nat (get_nports (p_node_proxy v))] of
           Inl f \<Rightarrow> Inl f
         | Inr calls \<Rightarrow> Inr (background # caption # border # calls))"

section \<open>Vocabulary of the properties\<close>

text \<open>The first port, in index order, whose hit rectangle contains a point.\<close>

definition port_hit :: "GraphicsNode \<Rightarrow> QPointF \<Rightarrow> nat option" where
  "port_hit v item_pos =
     List.find (\<lambda>k. QRectF_contains (port_rects (geometry v) ! k) item_pos)
       [0 ..< length (port_rects (geometry v))]"


text \<open>
  What the constructor establishes: \<^verbatim>\<open>is_port_hovered.resize(get_nports())\<close>, and a
  geometry computed from the proxy with one hit rectangle and one label rectangle per
  port.
\<close>

definition sized_to_ports :: "GraphicsNode \<Rightarrow> bool" where
  "sized_to_ports v =
     (length (is_port_hovered v) = length (proxy_ports (p_node_proxy v))
      \<and> length (port_rects (geometry v)) = length (proxy_ports (p_node_proxy v))
      \<and> length (port_label_rects (geometry v)) = length (proxy_ports (p_node_proxy v)))"

text \<open>
  The compatibility rule in the spec's words (section 4.3): the candidate's direction
  differs from the origin port's and its data-type tag equals the origin port's.
\<close>

definition compatible :: "Port \<Rightarrow> Port \<Rightarrow> bool" where
  "compatible origin candidate =
     (port_type candidate \<noteq> port_type origin \<and> data_type candidate = data_type origin)"

text \<open>
  Invariant I2 of the spec, and the port a drag started from: the origin's
  \<open>port_index_from\<close> is an index into its own ports.
\<close>

definition origin_index_valid :: "GraphicsNode \<Rightarrow> bool" where
  "origin_index_valid node =
     (0 \<le> port_index_from node \<and> port_index_from node < get_nports (p_node_proxy node))"

definition origin_port :: "GraphicsNode \<Rightarrow> Port" where
  "origin_port node = proxy_ports (p_node_proxy node) ! nat (port_index_from node)"

text \<open>The views among some items, in the items' order, and the first of them.\<close>

definition node_views :: "(nat \<times> QGraphicsItem) list \<Rightarrow> (nat \<times> GraphicsNode) list" where
  "node_views its =
     List.map_filter (\<lambda>(a, item). map_option (Pair a) (dynamic_cast_GraphicsNode item)) its"

definition first_NodeView :: "(nat \<times> QGraphicsItem) list \<Rightarrow> (nat \<times> GraphicsNode) option" where
  "first_NodeView its = (case node_views its of [] \<Rightarrow> None | x # xs \<Rightarrow> Some x)"

text \<open>
  The outline of port \<open>k\<close> in a painting of the view: the pen of its ellipse. A painting
  is the background, the caption and the border, then a label and an ellipse per port.
\<close>

fun ellipse_pen :: "draw_call \<Rightarrow> QPen option" where
  "ellipse_pen (drawEllipse pen brush c rx ry) = Some pen"
| "ellipse_pen (drawRoundedRect pen brush r rx ry) = None"
| "ellipse_pen (drawText pen pos s) = None"
| "ellipse_pen (drawTextIn pen r a s) = None"

definition port_outline ::
  "NodeStyle \<Rightarrow> (string \<Rightarrow> QColor) \<Rightarrow> GraphicsNode \<Rightarrow> nat \<Rightarrow> QPen option" where
  "port_outline style get_color_from_data_type v k =
     (case paint style get_color_from_data_type v of
        Inl f \<Rightarrow> None
      | Inr calls \<Rightarrow>
          if 4 + 2 * k < length calls then ellipse_pen (calls ! (4 + 2 * k)) else None)"

section \<open>Example views and scenes\<close>

definition port_rect_0 :: QRectF where
  "port_rect_0 = \<lparr>rect_x = 0, rect_y = 20, rect_w = 10, rect_h = 10\<rparr>"

definition port_rect_1 :: QRectF where
  "port_rect_1 = \<lparr>rect_x = 0, rect_y = 40, rect_w = 10, rect_h = 10\<rparr>"

text \<open>A view with two input ports, nothing hovered.\<close>

definition two_port_view :: GraphicsNode where
  "two_port_view =
     \<lparr>p_node_proxy =
        \<lparr>proxy_id = ''n0'', proxy_caption = ''Add'',
         proxy_ports = [\<lparr>port_type = IN, data_type = ''float'', port_caption = ''a''\<rparr>,
                        \<lparr>port_type = IN, data_type = ''float'', port_caption = ''b''\<rparr>]\<rparr>,
      geometry =
        \<lparr>full_width = 50, full_height = 60,
         body_rect = \<lparr>rect_x = 0, rect_y = 0, rect_w = 50, rect_h = 60\<rparr>,
         caption_pos = (5, 10),
         port_label_rects = [port_rect_0, port_rect_1],
         port_rects = [port_rect_0, port_rect_1]\<rparr>,
      is_port_hovered = [False, False],
      is_node_hovered = False,
      has_connection_started = False,
      port_index_from = 0,
      data_type_connecting = [],
      ItemIsMovable = True,
      isSelected = False,
      scenePos = (0, 0)\<rparr>"

text \<open>
  The nodes of the spec's scenarios A and B: \<open>N1\<close> has one \<open>OUT\<close> port of type float,
  \<open>N2\<close> one \<open>IN\<close> port of type float (of type int in scenario B). \<open>N1\<close> stands at the
  origin of the scene and \<open>N2\<close> a hundred units to its right.
\<close>

definition one_port_geometry :: GraphicsNodeGeometry where
  "one_port_geometry =
     \<lparr>full_width = 50, full_height = 60,
      body_rect = \<lparr>rect_x = 0, rect_y = 0, rect_w = 50, rect_h = 60\<rparr>,
      caption_pos = (5, 10),
      port_label_rects = [port_rect_0],
      port_rects = [port_rect_0]\<rparr>"

definition one_port_view :: "string \<Rightarrow> PortType \<Rightarrow> string \<Rightarrow> QPointF \<Rightarrow> GraphicsNode" where
  "one_port_view name ptype dtype pos =
     \<lparr>p_node_proxy =
        \<lparr>proxy_id = name, proxy_caption = name,
         proxy_ports = [\<lparr>port_type = ptype, data_type = dtype, port_caption = ''p''\<rparr>]\<rparr>,
      geometry = one_port_geometry,
      is_port_hovered = [False],
      is_node_hovered = False,
      has_connection_started = False,
      port_index_from = 0,
      data_type_connecting = [],
      ItemIsMovable = True,
      isSelected = False,
      scenePos = pos\<rparr>"

definition N1 :: GraphicsNode where
  "N1 = one_port_view ''N1'' OUT ''float'' (0, 0)"

definition N2 :: GraphicsNode where
  "N2 = one_port_view ''N2'' IN ''float'' (100, 0)"

definition N2_int :: GraphicsNode where
  "N2_int = one_port_view ''N2'' IN ''int'' (100, 0)"

text \<open>\<open>N1\<close> as a press on its hovered port leaves it: the origin of a drag.\<close>

definition N1_dragging :: GraphicsNode where
  "N1_dragging =
     N1\<lparr>is_port_hovered := [True], has_connection_started := True,
        port_index_from := 0, data_type_connecting := ''float'', ItemIsMovable := False\<rparr>"

definition left_button :: "QEventType \<Rightarrow> QPointF \<Rightarrow> QGraphicsSceneMouseEvent" where
  "left_button t pos = \<lparr>ev_type = t, ev_button = LeftButton, ev_scenePos = pos\<rparr>"

definition right_button :: "QEventType \<Rightarrow> QPointF \<Rightarrow> QGraphicsSceneMouseEvent" where
  "right_button t pos = \<lparr>ev_type = t, ev_button = RightButton, ev_scenePos = pos\<rparr>"

text \<open>
  Scenario A in mid-drag: the drag started on \<open>N1\<close>, and a relayed move has left port 0
  of \<open>N2\<close> hovered.
\<close>

definition N2_hovered :: GraphicsNode where
  "N2_hovered = N2\<lparr>is_port_hovered := [True], data_type_connecting := ''float''\<rparr>"

definition scene_A_dragging :: QGraphicsScene where
  "scene_A_dragging = [(1, NodeItem N1_dragging), (2, NodeItem N2_hovered)]"

text \<open>
  A third view \<open>N3\<close>, nothing hovered, stands in front of \<open>N2\<close> at the same place.
\<close>

definition N3 :: GraphicsNode where
  "N3 = one_port_view ''N3'' IN ''float'' (100, 0)"

definition scene_stacked :: QGraphicsScene where
  "scene_stacked =
     [(1, NodeItem N1_dragging), (3, NodeItem N3), (2, NodeItem N2_hovered)]"

text \<open>\<open>N1\<close> alone, in mid-drag with the pointer still on its own port.\<close>

definition scene_N1_alone :: QGraphicsScene where
  "scene_N1_alone = [(1, NodeItem N1_dragging)]"

text \<open>
  \<open>N1\<close> in mid-drag with another view in front of it, nothing hovered on that one, which
  covers the port of \<open>N1\<close> with its body.
\<close>

definition N3_in_front :: GraphicsNode where
  "N3_in_front = one_port_view ''N3'' IN ''float'' (0, - 15)"

definition scene_N1_covered :: QGraphicsScene where
  "scene_N1_covered = [(3, NodeItem N3_in_front), (1, NodeItem N1_dragging)]"

text \<open>
  Scenario A before the drag: at rest, with the pointer on port 0 of \<open>N1\<close>, and right
  after the press on that port. Scenario B right after the press.
\<close>

definition scene_A_idle :: QGraphicsScene where
  "scene_A_idle = [(1, NodeItem N1), (2, NodeItem N2)]"

definition scene_A_hover :: QGraphicsScene where
  "scene_A_hover = [(1, NodeItem (N1\<lparr>is_port_hovered := [True]\<rparr>)), (2, NodeItem N2)]"

definition scene_A_pressed :: QGraphicsScene where
  "scene_A_pressed = [(1, NodeItem N1_dragging), (2, NodeItem N2)]"

definition scene_B_pressed :: QGraphicsScene where
  "scene_B_pressed = [(1, NodeItem N1_dragging), (2, NodeItem N2_int)]"

text \<open>
  A drag that started on port 1 of a node which has lost that port since: the proxy and
  the geometry have one port left, the origin still holds index 1.
\<close>

definition origin_lost_port :: GraphicsNode where
  "origin_lost_port = N1_dragging\<lparr>is_port_hovered := [False, True], port_index_from := 1\<rparr>"

definition scene_lost_port :: QGraphicsScene where
  "scene_lost_port = [(1, NodeItem origin_lost_port), (2, NodeItem N2_hovered)]"

text \<open>A style whose colours and thicknesses are all different.\<close>

definition example_style :: NodeStyle where
  "example_style =
     \<lparr>color_bg = ''dark'',
      color_selected = ''orange'',
      color_caption = ''white'',
      color_border = ''black'',
      color_border_hovered = ''grey'',
      color_port_hovered = ''yellow'',
      color_port_not_selectable = ''dim'',
      thickness_selected = 3,
      thickness_hovered = 2,
      thickness_border = 1,
      rounding_radius = 8,
      port_radius = 6,
      port_radius_not_selectable = 4\<rparr>"

definition example_color_from_data_type :: "string \<Rightarrow> QColor" where
  "example_color_from_data_type dt = (if dt = ''float'' then ''blue'' else ''green'')"

section \<open>What a release during a drag does, in closed form\<close>

text \<open>
  The signals of a release are read off the first view under the pointer; the scene
  after it is the five writes of \<open>mouseReleaseEvent\<close> in their order.
\<close>

definition release_signals ::
  "nat \<Rightarrow> GraphicsNode \<Rightarrow> QGraphicsSceneMouseEvent \<Rightarrow> QGraphicsScene \<Rightarrow> signal list" where
  "release_signals this v event sc =
     (case first_NodeView (scene_items_at sc (ev_scenePos event)) of
        None \<Rightarrow> [connection_dropped this (port_index_from v) (ev_scenePos event)]
      | Some (a, target_node) \<Rightarrow>
          if 0 \<le> get_hovered_port_index target_node
          then [connection_finished this (port_index_from v) a
                  (get_hovered_port_index target_node)]
          else [connection_dropped this (port_index_from v) (ev_scenePos event)])"

definition release_scene :: "nat \<Rightarrow> QGraphicsScene \<Rightarrow> QGraphicsScene" where
  "release_scene this sc =
     modify_node
       (modify_node
          (clean_up_loop
             (modify_node (modify_node sc this reset_is_port_hovered) this
                (\<lambda>n. n\<lparr>has_connection_started := False\<rparr>)))
          this (\<lambda>n. n\<lparr>data_type_connecting := []\<rparr>))
       this (\<lambda>n. n\<lparr>ItemIsMovable := True\<rparr>)"

section \<open>Properties\<close>

lemmas example_defs =
  N1_def N2_def N2_int_def N3_def N1_dragging_def N2_hovered_def one_port_view_def
  one_port_geometry_def port_rect_0_def port_rect_1_def two_port_view_def
  left_button_def right_button_def scene_A_dragging_def scene_stacked_def
  scene_N1_alone_def N3_in_front_def scene_N1_covered_def
  scene_A_idle_def scene_A_hover_def scene_A_pressed_def
  scene_B_pressed_def origin_lost_port_def scene_lost_port_def

lemmas scene_defs =
  node_at_def scene_items_at_def scene_items_def rect_def QRectF_contains_def
  QPointF_minus_def QPointF_plus_def modify_node_def set_node_def clean_up_loop_def
  get_hovered_port_index_def reset_is_port_hovered_def first_NodeView_def node_views_def

subsection \<open>Helper lemmas: searching lists\<close>

lemma find_map_image:
  "List.find P (map f xs) = map_option f (List.find (\<lambda>x. P (f x)) xs)"
  by (induction xs) auto

lemma find_upt_Suc:
  "List.find P [0 ..< Suc n] = (if P 0 then Some 0 else map_option Suc (List.find (\<lambda>i. P (Suc i)) [0 ..< n]))"
proof -
  have "[0 ..< Suc n] = 0 # map Suc [0 ..< n]"
    by (simp add: upt_conv_Cons map_Suc_upt del: upt_Suc)
  then show ?thesis
    by (simp add: find_map_image del: upt_Suc)
qed

subsection \<open>The hover tracker\<close>

lemma hover_hit_loop_find:
  "hover_hit_loop k rs p hs =
     (case List.find (\<lambda>i. QRectF_contains (rs ! i) p) [0 ..< length rs] of
        None \<Rightarrow> Inr None
      | Some i \<Rightarrow> if k + i < length hs then Inr (Some (hs[k + i := True]))
                  else Inl (VectorOutOfRange (k + i)))"
proof (induction rs arbitrary: k)
  case Nil
  then show ?case by simp
next
  case (Cons r rs)
  show ?case
    by (simp add: find_upt_Suc Cons.IH split: option.splits del: upt_Suc)
qed

lemma hover_left_loop_find:
  "length rs + k \<le> length hs \<Longrightarrow> hover_left_loop k rs hs =
     (case List.find (\<lambda>i. hs ! (k + i)) [0 ..< length rs] of
        None \<Rightarrow> Inr None
      | Some i \<Rightarrow> Inr (Some (hs[k + i := False])))"
proof (induction rs arbitrary: k)
  case Nil
  then show ?case by simp
next
  case (Cons r rs)
  then show ?case
    by (simp add: find_upt_Suc split: option.splits del: upt_Suc)
qed



lemma find_None_all_False:
  "List.find (\<lambda>i. hs ! i) [0 ..< length hs] = None \<Longrightarrow> \<forall>b \<in> set hs. \<not> b"
  by (auto simp: find_None_iff in_set_conv_nth)


lemma std_find_true_find:
  "std_find_true hs = List.find (\<lambda>i. hs ! i) [0 ..< length hs]"
proof (induction hs)
  case Nil
  then show ?case by simp
next
  case (Cons b bs)
  then show ?case by (simp add: find_upt_Suc del: upt_Suc)
qed

lemma std_find_true_Some:
  "std_find_true hs = Some j \<Longrightarrow> j < length hs \<and> hs ! j \<and> (\<forall>i < j. \<not> hs ! i)"
  by (auto simp: std_find_true_find find_Some_iff)

lemma std_find_true_None:
  "std_find_true hs = None \<Longrightarrow> \<forall>b \<in> set hs. \<not> b"
  using find_None_all_False [of hs] by (simp add: std_find_true_find)

lemma port_hit_Some:
  "port_hit v p = Some k \<Longrightarrow>
     k < length (port_rects (geometry v)) \<and> QRectF_contains (port_rects (geometry v) ! k) p"
  by (auto simp: port_hit_def find_Some_iff)

lemma update_is_port_hovered_eq:
  assumes "length (is_port_hovered v) = length (port_rects (geometry v))"
  shows "update_is_port_hovered v p =
     Inr (case port_hit v p of
            Some k \<Rightarrow> (True, v\<lparr>is_port_hovered := (is_port_hovered v)[k := True]\<rparr>)
          | None \<Rightarrow>
              (case std_find_true (is_port_hovered v) of
                 Some j \<Rightarrow> (True, v\<lparr>is_port_hovered := (is_port_hovered v)[j := False]\<rparr>)
               | None \<Rightarrow> (False, v)))"
proof (cases "port_hit v p")
  case None
  have "hover_left_loop 0 (port_rects (geometry v)) (is_port_hovered v) =
      (case std_find_true (is_port_hovered v) of
         None \<Rightarrow> Inr None
       | Some i \<Rightarrow> Inr (Some ((is_port_hovered v)[i := False])))"
    using assms by (simp add: hover_left_loop_find std_find_true_find split: option.splits)
  with None show ?thesis
    by (simp add: update_is_port_hovered_def hover_hit_loop_find port_hit_def
        split: option.splits)
next
  case (Some k)
  then have "k < length (is_port_hovered v)"
    using assms port_hit_Some by fastforce
  with Some show ?thesis
    by (simp add: update_is_port_hovered_def hover_hit_loop_find port_hit_def)
qed




subsection \<open>The scene as a store\<close>

lemma node_at_Nil: "node_at [] b = None"
  by (simp add: node_at_def)

lemma node_at_Cons:
  "node_at ((a, item) # sc) b =
     (if b = a then dynamic_cast_GraphicsNode item else node_at sc b)"
  by (simp add: node_at_def)

lemma node_at_modify_node:
  "node_at (modify_node sc a f) b =
     (if b = a then map_option f (node_at sc b) else node_at sc b)"
proof (induction sc)
  case Nil
  then show ?case by (simp add: modify_node_def node_at_Nil)
next
  case (Cons x sc)
  obtain a' item where x: "x = (a', item)" by (cases x)
  show ?case
    using Cons.IH unfolding x
    by (cases item) (auto simp: modify_node_def node_at_Cons)
qed

lemma node_at_clean_up_loop:
  "node_at (clean_up_loop sc) b =
     map_option (\<lambda>n. n\<lparr>data_type_connecting := []\<rparr>) (node_at sc b)"
proof (induction sc)
  case Nil
  then show ?case by (simp add: clean_up_loop_def scene_items_def node_at_Nil)
next
  case (Cons x sc)
  obtain a' item where x: "x = (a', item)" by (cases x)
  show ?case
    using Cons.IH unfolding x
    by (cases item) (auto simp: clean_up_loop_def scene_items_def node_at_Cons)
qed

lemma NodeItem_in_modify_node:
  "(a, NodeItem n) \<in> set (modify_node sc b f) \<Longrightarrow>
     \<exists>m. (a, NodeItem m) \<in> set sc \<and> (n = m \<or> n = f m)"
proof -
  assume "(a, NodeItem n) \<in> set (modify_node sc b f)"
  then obtain x where x: "x \<in> set sc" "modify_item b f x = (a, NodeItem n)"
    by (auto simp: modify_node_def)
  obtain a' item where ai: "x = (a', item)" by (cases x)
  show ?thesis
    using x unfolding ai by (cases item) (auto split: if_splits)
qed

lemma NodeItem_in_clean_up_loop:
  "(a, NodeItem n) \<in> set (clean_up_loop sc) \<Longrightarrow> data_type_connecting n = []"
proof -
  assume "(a, NodeItem n) \<in> set (clean_up_loop sc)"
  then obtain x where x: "x \<in> set sc" "clean_up_item x = (a, NodeItem n)"
    by (auto simp: clean_up_loop_def scene_items_def)
  obtain a' item where ai: "x = (a', item)" by (cases x)
  show ?thesis
    using x unfolding ai by (cases item) auto
qed

lemma node_at_set_node:
  "node_at sc a = Some v \<Longrightarrow> node_at (set_node sc a v') a = Some v'"
  by (simp add: set_node_def node_at_modify_node)

lemma node_at_set_node_other:
  "b \<noteq> a \<Longrightarrow> node_at (set_node sc a v') b = node_at sc b"
  by (simp add: set_node_def node_at_modify_node)

subsection \<open>Release\<close>

lemma items_under_mouse_loop_first_NodeView:
  "items_under_mouse_loop this pidx_from its =
     (case first_NodeView its of
        None \<Rightarrow> ([], True)
      | Some (a, target_node) \<Rightarrow>
          if 0 \<le> get_hovered_port_index target_node
          then ([connection_finished this pidx_from a (get_hovered_port_index target_node)],
                False)
          else ([], True))"
proof (induction its)
  case Nil
  then show ?case by (simp add: first_NodeView_def node_views_def map_filter_simps)
next
  case (Cons x its)
  obtain a item where x: "x = (a, item)" by (cases x)
  show ?case
    using Cons.IH unfolding x
    by (cases item) (simp_all add: first_NodeView_def node_views_def map_filter_simps Let_def)
qed

lemma mouseReleaseEvent_drag:
  assumes "node_at sc this = Some v" "ev_button event = LeftButton" "has_connection_started v"
  shows "mouseReleaseEvent this event sc =
           Inr (release_signals this v event sc, release_scene this sc)"
  using assms
  by (simp add: mouseReleaseEvent_def items_under_mouse_loop_first_NodeView Let_def
      release_signals_def release_scene_def split: option.splits prod.splits)

lemma get_hovered_port_index_nonneg:
  "0 \<le> get_hovered_port_index v \<longleftrightarrow> True \<in> set (is_port_hovered v)"
proof -
  have "std_find_true hs = None \<longleftrightarrow> True \<notin> set hs" for hs
    by (induction hs) auto
  from this [of "is_port_hovered v"] show ?thesis
    by (cases "std_find_true (is_port_hovered v)") (simp_all add: get_hovered_port_index_def)
qed

text \<open>
  Claim C1. A primary-button release on the origin of a drag returns normally, and its
  signals are decided by the first view among the items under the release point, front
  to back: \<open>connection_finished\<close> with the origin, the origin's port index, that view
  and its hovered port index when it has a hovered port; \<open>connection_dropped\<close> with the
  origin, the origin's port index and the release position when it has none, or when no
  view is under the point. No view behind the first one is looked at.
\<close>

theorem mouseReleaseEvent_first_NodeView_decides:
  assumes "node_at sc this = Some v"
    and "ev_button event = LeftButton"
    and "has_connection_started v"
  shows "\<exists>sc'. mouseReleaseEvent this event sc =
     Inr (case first_NodeView (scene_items_at sc (ev_scenePos event)) of
            None \<Rightarrow> [connection_dropped this (port_index_from v) (ev_scenePos event)]
          | Some (a, target_node) \<Rightarrow>
              if 0 \<le> get_hovered_port_index target_node
              then [connection_finished this (port_index_from v) a
                      (get_hovered_port_index target_node)]
              else [connection_dropped this (port_index_from v) (ev_scenePos event)],
          sc')"
  using mouseReleaseEvent_drag [OF assms] by (simp add: release_signals_def)

text \<open>
  The release lands where \<open>N3\<close>, with no hovered port, covers \<open>N2\<close>, whose port is
  hovered: the gesture is dropped.
\<close>

theorem mouseReleaseEvent_first_NodeView_decides_witness:
  "node_at scene_stacked 1 = Some N1_dragging
   \<and> has_connection_started N1_dragging
   \<and> first_NodeView (scene_items_at scene_stacked (105, 25)) = Some (3, N3)
   \<and> get_hovered_port_index N3 = - 1
   \<and> get_hovered_port_index N2_hovered = 0
   \<and> mouseReleaseEvent 1 (left_button GraphicsSceneMouseRelease (105, 25)) scene_stacked
       = Inr ([connection_dropped 1 0 (105, 25)],
              [(1, NodeItem N1), (3, NodeItem N3),
               (2, NodeItem (N2\<lparr>is_port_hovered := [True]\<rparr>))])"
  using mouseReleaseEvent_first_NodeView_decides
    [of scene_stacked 1 N1_dragging "left_button GraphicsSceneMouseRelease (105, 25)"]
  by (simp add: example_defs scene_defs mouseReleaseEvent_def)

text \<open>
  Claim C3, as amended. After a primary-button release on the origin of a drag, every
  view of the scene has an empty \<open>data_type_connecting\<close>; the origin has no hovered port,
  is no longer dragging and can be moved again; every other view is as it was but for
  its \<open>data_type_connecting\<close>, its hover flags included.
\<close>

theorem mouseReleaseEvent_clean_up:
  assumes "node_at sc this = Some v"
    and "ev_button event = LeftButton"
    and "has_connection_started v"
  shows "\<exists>signals sc'. mouseReleaseEvent this event sc = Inr (signals, sc')
     \<and> (\<forall>a n. (a, NodeItem n) \<in> set sc' \<longrightarrow> data_type_connecting n = [])
     \<and> (\<exists>v'. node_at sc' this = Some v' \<and> True \<notin> set (is_port_hovered v')
              \<and> \<not> has_connection_started v' \<and> ItemIsMovable v')
     \<and> (\<forall>a n. a \<noteq> this \<and> node_at sc a = Some n \<longrightarrow>
            node_at sc' a = Some (n\<lparr>data_type_connecting := []\<rparr>))"
proof -
  have "data_type_connecting n = []" if "(a, NodeItem n) \<in> set (release_scene this sc)" for a n
  proof -
    from that obtain m where m:
      "(a, NodeItem m) \<in> set (modify_node (clean_up_loop
          (modify_node (modify_node sc this reset_is_port_hovered) this
             (\<lambda>n. n\<lparr>has_connection_started := False\<rparr>))) this
          (\<lambda>n. n\<lparr>data_type_connecting := []\<rparr>))"
      "n = m \<or> n = m\<lparr>ItemIsMovable := True\<rparr>"
      unfolding release_scene_def by (blast dest: NodeItem_in_modify_node)
    from m(1) obtain l where l:
      "(a, NodeItem l) \<in> set (clean_up_loop
          (modify_node (modify_node sc this reset_is_port_hovered) this
             (\<lambda>n. n\<lparr>has_connection_started := False\<rparr>)))"
      "m = l \<or> m = l\<lparr>data_type_connecting := []\<rparr>"
      by (blast dest: NodeItem_in_modify_node)
    from l(1) have "data_type_connecting l = []"
      by (rule NodeItem_in_clean_up_loop)
    with l(2) m(2) show ?thesis by auto
  qed
  moreover have "node_at (release_scene this sc) this =
      Some (reset_is_port_hovered v\<lparr>has_connection_started := False,
              data_type_connecting := [], ItemIsMovable := True\<rparr>)"
    using assms(1)
    by (simp add: release_scene_def node_at_modify_node node_at_clean_up_loop)
  moreover have "True \<notin> set (is_port_hovered (reset_is_port_hovered v))"
    by (simp add: reset_is_port_hovered_def)
  moreover have "node_at (release_scene this sc) a = Some (n\<lparr>data_type_connecting := []\<rparr>)"
    if "a \<noteq> this" "node_at sc a = Some n" for a n
    using that
    by (simp add: release_scene_def node_at_modify_node node_at_clean_up_loop)
  ultimately show ?thesis
    using mouseReleaseEvent_drag [OF assms] by simp
qed

theorem mouseReleaseEvent_clean_up_witness:
  "node_at scene_A_dragging 1 = Some N1_dragging
   \<and> has_connection_started N1_dragging
   \<and> data_type_connecting N2_hovered = ''float''
   \<and> mouseReleaseEvent 1 (left_button GraphicsSceneMouseRelease (300, 300)) scene_A_dragging
       = Inr ([connection_dropped 1 0 (300, 300)],
              [(1, NodeItem N1), (2, NodeItem (N2\<lparr>is_port_hovered := [True]\<rparr>))])
   \<and> data_type_connecting N1 = []
   \<and> data_type_connecting (N2\<lparr>is_port_hovered := [True]\<rparr>) = []
   \<and> is_port_hovered N1 = [False]"
  using mouseReleaseEvent_clean_up
    [of scene_A_dragging 1 N1_dragging "left_button GraphicsSceneMouseRelease (300, 300)"]
  by (simp add: example_defs scene_defs mouseReleaseEvent_def)

text \<open>
  Claim C3 as stated fails: in scenario A the release over port 0 of \<open>N2\<close> connects, and
  afterwards that port of \<open>N2\<close> is still hovered. Only the origin's flags are reset.
\<close>

theorem mouseReleaseEvent_target_stays_hovered_counterexample:
  "mouseReleaseEvent 1 (left_button GraphicsSceneMouseRelease (105, 25)) scene_A_dragging
     = Inr ([connection_finished 1 0 2 0],
            [(1, NodeItem N1), (2, NodeItem (N2\<lparr>is_port_hovered := [True]\<rparr>))])
   \<and> is_port_hovered (N2\<lparr>is_port_hovered := [True]\<rparr>) = [True]"
  by (simp add: example_defs scene_defs mouseReleaseEvent_def)

text \<open>
  Claim C10, as amended. When the first view under the release point, front to back, is
  the origin itself and the origin has a hovered port, the release emits
  \<open>connection_finished\<close> with the origin as source and as target, whatever the
  directions and data types of the two ports: the release asks the proxy nothing. And a
  hover move sets the flag of the first port whose hit rectangle contains the item
  position the handler computes, whatever the proxy says about the port.
\<close>

theorem mouseReleaseEvent_self_connection:
  "(node_at sc this = Some v \<and> ev_button event = LeftButton \<and> has_connection_started v
      \<and> first_NodeView (scene_items_at sc (ev_scenePos event)) = Some (this, v)
      \<and> 0 \<le> get_hovered_port_index v
    \<longrightarrow> (\<exists>sc'. mouseReleaseEvent this event sc =
           Inr ([connection_finished this (port_index_from v) this
                   (get_hovered_port_index v)], sc')))
   \<and> (length (is_port_hovered u) = length (port_rects (geometry u))
        \<and> port_hit u (to_double fl (QPointF_minus (mapToScene fl u pos) (scenePos u)))
            = Some k
      \<longrightarrow> hoverMoveEvent fl u pos =
            Inr (u\<lparr>is_port_hovered := (is_port_hovered u)[k := True]\<rparr>))"
proof (intro conjI impI)
  assume a: "node_at sc this = Some v \<and> ev_button event = LeftButton
      \<and> has_connection_started v
      \<and> first_NodeView (scene_items_at sc (ev_scenePos event)) = Some (this, v)
      \<and> 0 \<le> get_hovered_port_index v"
  then have "mouseReleaseEvent this event sc =
      Inr (release_signals this v event sc, release_scene this sc)"
    by (simp add: mouseReleaseEvent_drag)
  with a show "\<exists>sc'. mouseReleaseEvent this event sc =
      Inr ([connection_finished this (port_index_from v) this (get_hovered_port_index v)], sc')"
    by (simp add: release_signals_def)
next
  let ?item_pos = "to_double fl (QPointF_minus (mapToScene fl u pos) (scenePos u))"
  assume a: "length (is_port_hovered u) = length (port_rects (geometry u))
      \<and> port_hit u ?item_pos = Some k"
  then have len: "length (is_port_hovered u) = length (port_rects (geometry u))"
    and hit: "port_hit u ?item_pos = Some k"
    by simp_all
  show "hoverMoveEvent fl u pos
      = Inr (u\<lparr>is_port_hovered := (is_port_hovered u)[k := True]\<rparr>)"
    by (simp add: hoverMoveEvent_def Let_def update_is_port_hovered_eq [OF len] hit)
qed

text \<open>
  \<open>N1\<close> alone in mid-drag, released on its own port: the connection goes from port 0 of
  \<open>N1\<close> to port 0 of \<open>N1\<close>. On the examples every coordinate is a small integer, which
  a double holds exactly, as it does their sums and differences: the rounding is the
  identity there.
\<close>

theorem mouseReleaseEvent_self_connection_witness:
  "node_at scene_N1_alone 1 = Some N1_dragging
   \<and> has_connection_started N1_dragging
   \<and> first_NodeView (scene_items_at scene_N1_alone (5, 25)) = Some (1, N1_dragging)
   \<and> get_hovered_port_index N1_dragging = 0
   \<and> mouseReleaseEvent 1 (left_button GraphicsSceneMouseRelease (5, 25)) scene_N1_alone
       = Inr ([connection_finished 1 0 1 0], [(1, NodeItem N1)])
   \<and> port_hit N1 (to_double (\<lambda>x. x) (QPointF_minus (mapToScene (\<lambda>x. x) N1 (5, 25))
                                          (scenePos N1))) = Some 0
   \<and> hoverMoveEvent (\<lambda>x. x) N1 (5, 25) = Inr (N1\<lparr>is_port_hovered := [True]\<rparr>)"
  using mouseReleaseEvent_self_connection
    [of scene_N1_alone 1 N1_dragging "left_button GraphicsSceneMouseRelease (5, 25)"
        N1 "\<lambda>x. x" "(5, 25)" 0]
  by (simp add: example_defs scene_defs port_hit_def mouseReleaseEvent_def
      to_double_def mapToScene_def)

text \<open>
  Claim C10 as stated fails: the release point lies over the origin \<open>N1\<close>, whose port 0
  is hovered, and \<open>N3\<close>, with no hovered port, stands in front of it there. The first
  view under the point is \<open>N3\<close>, and the gesture is dropped.
\<close>

theorem mouseReleaseEvent_origin_covered_counterexample:
  "node_at scene_N1_covered 1 = Some N1_dragging
   \<and> has_connection_started N1_dragging
   \<and> item_contains (NodeItem N1_dragging) (5, 25)
   \<and> get_hovered_port_index N1_dragging = 0
   \<and> mouseReleaseEvent 1 (left_button GraphicsSceneMouseRelease (5, 25)) scene_N1_covered
       = Inr ([connection_dropped 1 0 (5, 25)],
              [(3, NodeItem N3_in_front), (1, NodeItem N1)])"
  by (simp add: example_defs scene_defs mouseReleaseEvent_def)

subsection \<open>Press\<close>

lemma get_port_type_valid:
  "0 \<le> k \<Longrightarrow> k < get_nports p \<Longrightarrow>
     get_port_type p k = Some (port_type (proxy_ports p ! nat k))"
  by (simp add: get_port_type_def get_port_def)

lemma get_data_type_valid:
  "0 \<le> k \<Longrightarrow> k < get_nports p \<Longrightarrow>
     get_data_type p k = Some (data_type (proxy_ports p ! nat k))"
  by (simp add: get_data_type_def get_port_def)

text \<open>
  Claim C5, as amended. A primary-button press does not look at where it lands: it asks
  the hover flags. On a view sized to its ports whose first hovered port is \<open>k\<close>, the
  press emits \<open>connection_started\<close> with the view and \<open>k\<close>, and leaves the view with
  \<open>has_connection_started\<close> true, \<open>port_index_from = k\<close>, \<open>data_type_connecting\<close> equal
  to the data type of port \<open>k\<close> and \<open>ItemIsMovable\<close> false; no other view changes. On a
  view with no hovered port the press changes nothing and emits nothing.
\<close>

theorem mousePressEvent_starts_drag:
  assumes "node_at sc this = Some v"
    and "ev_button event = LeftButton"
    and "sized_to_ports v"
  shows "(\<forall>k. get_hovered_port_index v = int k \<longrightarrow>
            (\<exists>sc'. mousePressEvent this event sc = Inr ([connection_started this (int k)], sc')
               \<and> node_at sc' this =
                   Some (v\<lparr>has_connection_started := True, ItemIsMovable := False,
                           port_index_from := int k,
                           data_type_connecting :=
                             data_type (proxy_ports (p_node_proxy v) ! k)\<rparr>)
               \<and> (\<forall>a. a \<noteq> this \<longrightarrow> node_at sc' a = node_at sc a)))
     \<and> (get_hovered_port_index v = - 1 \<longrightarrow> mousePressEvent this event sc = Inr ([], sc))"
proof (intro conjI allI impI)
  fix k
  assume h: "get_hovered_port_index v = int k"
  then have "std_find_true (is_port_hovered v) = Some k"
    by (auto simp: get_hovered_port_index_def split: option.splits)
  then have "k < length (proxy_ports (p_node_proxy v))"
    using std_find_true_Some assms(3) by (fastforce simp: sized_to_ports_def)
  then have "get_data_type (p_node_proxy v) (int k)
      = Some (data_type (proxy_ports (p_node_proxy v) ! k))"
    by (simp add: get_data_type_valid get_nports_def)
  then show "\<exists>sc'. mousePressEvent this event sc = Inr ([connection_started this (int k)], sc')
      \<and> node_at sc' this =
          Some (v\<lparr>has_connection_started := True, ItemIsMovable := False,
                  port_index_from := int k,
                  data_type_connecting := data_type (proxy_ports (p_node_proxy v) ! k)\<rparr>)
      \<and> (\<forall>a. a \<noteq> this \<longrightarrow> node_at sc' a = node_at sc a)"
    using assms(1,2) h
    by (simp add: mousePressEvent_def Let_def node_at_set_node node_at_set_node_other)
next
  assume "get_hovered_port_index v = - 1"
  then show "mousePressEvent this event sc = Inr ([], sc)"
    using assms(1,2) by (simp add: mousePressEvent_def)
qed

theorem mousePressEvent_starts_drag_witness:
  "node_at scene_A_hover 1 = Some (N1\<lparr>is_port_hovered := [True]\<rparr>)
   \<and> sized_to_ports (N1\<lparr>is_port_hovered := [True]\<rparr>)
   \<and> get_hovered_port_index (N1\<lparr>is_port_hovered := [True]\<rparr>) = 0
   \<and> get_hovered_port_index N2 = - 1
   \<and> mousePressEvent 1 (left_button GraphicsSceneMousePress (5, 25)) scene_A_hover
       = Inr ([connection_started 1 0], [(1, NodeItem N1_dragging), (2, NodeItem N2)])
   \<and> mousePressEvent 2 (left_button GraphicsSceneMousePress (130, 50)) scene_A_hover
       = Inr ([], scene_A_hover)"
  using mousePressEvent_starts_drag
    [of scene_A_hover 1 "N1\<lparr>is_port_hovered := [True]\<rparr>"
        "left_button GraphicsSceneMousePress (5, 25)"]
  by (simp add: example_defs scene_defs mousePressEvent_def sized_to_ports_def
      get_data_type_def get_port_def get_nports_def)

text \<open>
  Claim C5 as stated fails: a press inside the hit rectangle of port 0 of \<open>N1\<close>, whose
  hover flag is not set, starts no drag.
\<close>

theorem mousePressEvent_ignores_position_counterexample:
  "node_at scene_A_idle 1 = Some N1
   \<and> port_hit N1 (QPointF_minus (5, 25) (scenePos N1)) = Some 0
   \<and> mousePressEvent 1 (left_button GraphicsSceneMousePress (5, 25)) scene_A_idle
       = Inr ([], scene_A_idle)
   \<and> \<not> has_connection_started N1"
  by (simp add: example_defs scene_defs mousePressEvent_def port_hit_def)

text \<open>
  Claim C9, as amended. A secondary-button press emits \<open>right_clicked\<close> with the node's
  identifier and the scene position of the view, \<^verbatim>\<open>this->scenePos()\<close>, and leaves the
  scene as it is.
\<close>

theorem mousePressEvent_right_clicked:
  assumes "node_at sc this = Some v"
    and "ev_button event = RightButton"
  shows "mousePressEvent this event sc
           = Inr ([right_clicked (get_id (p_node_proxy v)) (scenePos v)], sc)"
  using assms by (simp add: mousePressEvent_def)

theorem mousePressEvent_right_clicked_witness:
  "node_at scene_A_idle 2 = Some N2
   \<and> mousePressEvent 2 (right_button GraphicsSceneMousePress (105, 25)) scene_A_idle
       = Inr ([right_clicked ''N2'' (100, 0)], scene_A_idle)"
  using mousePressEvent_right_clicked
    [of scene_A_idle 2 N2 "right_button GraphicsSceneMousePress (105, 25)"]
  by (simp add: example_defs scene_defs get_id_def)

text \<open>
  Claim C9 as stated fails: a secondary-button press at (105, 25) on \<open>N2\<close>, which stands
  at (100, 0), reports (100, 0).
\<close>

theorem mousePressEvent_right_clicked_position_counterexample:
  "mousePressEvent 2 (right_button GraphicsSceneMousePress (105, 25)) scene_A_idle
       = Inr ([right_clicked ''N2'' (100, 0)], scene_A_idle)
   \<and> ev_scenePos (right_button GraphicsSceneMousePress (105, 25)) = (105, 25)
   \<and> (100 :: real, 0 :: real) \<noteq> (105, 25)"
  by (simp add: example_defs scene_defs mousePressEvent_def get_id_def)

subsection \<open>The relay\<close>

lemma compatibility_loop_step:
  assumes "origin_index_valid node" and "k < length hs" and "k < length (proxy_ports proxy)"
  shows "compatibility_loop (k # ks) node proxy hs =
     compatibility_loop ks node proxy
       (if hs ! k \<and> \<not> compatible (origin_port node) (proxy_ports proxy ! k)
        then hs[k := False] else hs)"
proof -
  have o: "get_port_type (p_node_proxy node) (port_index_from node)
             = Some (port_type (origin_port node))"
    "get_data_type (p_node_proxy node) (port_index_from node)
             = Some (data_type (origin_port node))"
    using assms(1)
    by (simp_all add: origin_index_valid_def origin_port_def get_port_type_valid
        get_data_type_valid)
  have t: "get_port_type proxy (int k) = Some (port_type (proxy_ports proxy ! k))"
    "get_data_type proxy (int k) = Some (data_type (proxy_ports proxy ! k))"
    using assms(3)
    by (simp_all add: get_port_type_valid get_data_type_valid get_nports_def)
  show ?thesis
    using assms(2) by (auto simp: o t compatible_def)
qed

lemma compatibility_loop_flags:
  assumes "origin_index_valid node"
    and "\<forall>k \<in> set ks. k < length hs \<and> k < length (proxy_ports proxy)"
  shows "\<exists>hs'. compatibility_loop ks node proxy hs = Inr hs' \<and> length hs' = length hs
     \<and> (\<forall>i < length hs. hs' ! i =
           (hs ! i \<and> (i \<in> set ks \<longrightarrow> compatible (origin_port node) (proxy_ports proxy ! i))))"
  using assms(2)
proof (induction ks arbitrary: hs)
  case Nil
  then show ?case by simp
next
  case (Cons k ks)
  let ?hs = "if hs ! k \<and> \<not> compatible (origin_port node) (proxy_ports proxy ! k)
             then hs[k := False] else hs"
  have k: "k < length hs" "k < length (proxy_ports proxy)"
    using Cons.prems by simp_all
  have "\<forall>j \<in> set ks. j < length ?hs \<and> j < length (proxy_ports proxy)"
    using Cons.prems by simp
  from Cons.IH [OF this] obtain hs' where hs':
    "compatibility_loop ks node proxy ?hs = Inr hs'" "length hs' = length ?hs"
    "\<forall>i < length ?hs. hs' ! i =
       (?hs ! i \<and> (i \<in> set ks \<longrightarrow> compatible (origin_port node) (proxy_ports proxy ! i)))"
    by blast
  have "compatibility_loop (k # ks) node proxy hs = Inr hs'"
    using hs'(1) by (simp only: compatibility_loop_step [OF assms(1) k])
  moreover have "length hs' = length hs"
    using hs'(2) by simp
  moreover have "hs' ! i =
       (hs ! i \<and> (i \<in> set (k # ks) \<longrightarrow> compatible (origin_port node) (proxy_ports proxy ! i)))"
    if "i < length hs" for i
    using hs'(3) that k(1) by (cases "i = k") (auto simp: nth_list_update)
  ultimately show ?case by blast
qed

lemma update_is_port_hovered_frame:
  assumes "length (is_port_hovered v) = length (port_rects (geometry v))"
  shows "\<exists>changed v2. update_is_port_hovered v p = Inr (changed, v2)
     \<and> p_node_proxy v2 = p_node_proxy v
     \<and> data_type_connecting v2 = data_type_connecting v
     \<and> length (is_port_hovered v2) = length (is_port_hovered v)
     \<and> (\<not> changed \<longrightarrow> v2 = v \<and> True \<notin> set (is_port_hovered v))"
proof -
  have "True \<notin> set hs" if "std_find_true hs = None" for hs :: "bool list"
    using std_find_true_None [OF that] by auto
  then show ?thesis
    by (auto simp: update_is_port_hovered_eq [OF assms] split: option.splits)
qed

lemma sceneEventFilter_relay:
  assumes "node_at sc this = Some v"
    and "node_at sc watched = Some node"
    and "ev_type event = GraphicsSceneMouseMove"
    and "has_connection_started node"
    and "sized_to_ports v"
    and "origin_index_valid node"
  shows "\<exists>changed v2 hs'.
     update_is_port_hovered (v\<lparr>data_type_connecting := data_type_connecting node\<rparr>)
         (QPointF_minus (ev_scenePos event) (scenePos v)) = Inr (changed, v2)
     \<and> sceneEventFilter this watched event sc
         = Inr (set_node sc this (v2\<lparr>is_port_hovered := hs'\<rparr>))
     \<and> p_node_proxy v2 = p_node_proxy v
     \<and> data_type_connecting v2 = data_type_connecting node
     \<and> length hs' = length (is_port_hovered v)
     \<and> length (is_port_hovered v2) = length (is_port_hovered v)
     \<and> (\<forall>i < length (is_port_hovered v). hs' ! i =
           (is_port_hovered v2 ! i
            \<and> compatible (origin_port node) (proxy_ports (p_node_proxy v) ! i)))"
proof -
  let ?v1 = "v\<lparr>data_type_connecting := data_type_connecting node\<rparr>"
  let ?p = "QPointF_minus (ev_scenePos event) (scenePos v)"
  have v1: "(if data_type_connecting v \<noteq> data_type_connecting node then ?v1 else v) = ?v1"
    by simp
  have len: "length (is_port_hovered ?v1) = length (port_rects (geometry ?v1))"
    using assms(5) by (simp add: sized_to_ports_def)
  from update_is_port_hovered_frame [OF len, of ?p] obtain changed v2 where u:
    "update_is_port_hovered ?v1 ?p = Inr (changed, v2)"
    "p_node_proxy v2 = p_node_proxy v"
    "data_type_connecting v2 = data_type_connecting node"
    "length (is_port_hovered v2) = length (is_port_hovered v)"
    "\<not> changed \<longrightarrow> v2 = ?v1 \<and> True \<notin> set (is_port_hovered v)"
    by auto
  have n: "nat (get_nports (p_node_proxy v2)) = length (is_port_hovered v2)"
    using assms(5) u(2,4) by (simp add: sized_to_ports_def get_nports_def)
  have "\<forall>k \<in> set [0 ..< length (is_port_hovered v2)].
      k < length (is_port_hovered v2) \<and> k < length (proxy_ports (p_node_proxy v2))"
    using assms(5) u(2,4) by (simp add: sized_to_ports_def)
  from compatibility_loop_flags [OF assms(6) this] obtain hs' where hs':
    "compatibility_loop [0 ..< length (is_port_hovered v2)] node (p_node_proxy v2)
        (is_port_hovered v2) = Inr hs'"
    "length hs' = length (is_port_hovered v2)"
    "\<forall>i < length (is_port_hovered v2). hs' ! i =
       (is_port_hovered v2 ! i \<and> compatible (origin_port node) (proxy_ports (p_node_proxy v2) ! i))"
    by auto
  show ?thesis
  proof (cases changed)
    case True
    have "sceneEventFilter this watched event sc
        = Inr (set_node sc this (v2\<lparr>is_port_hovered := hs'\<rparr>))"
      using assms(1-4) u(1) True hs'(1)
      by (simp add: sceneEventFilter_def Let_def v1 n)
    with u hs' show ?thesis by auto
  next
    case False
    then have f: "v2 = ?v1" "True \<notin> set (is_port_hovered v)"
      using u(5) by simp_all
    have "sceneEventFilter this watched event sc = Inr (set_node sc this v2)"
      using assms(1-4) u(1) False
      by (simp add: sceneEventFilter_def Let_def v1)
    moreover have "v2\<lparr>is_port_hovered := is_port_hovered v2\<rparr> = v2"
      by simp
    moreover have "\<forall>i < length (is_port_hovered v). \<not> is_port_hovered v2 ! i"
      using f by (auto simp: in_set_conv_nth)
    ultimately show ?thesis
      using u by (intro exI [of _ changed] exI [of _ v2] exI [of _ "is_port_hovered v2"]) simp
  qed
qed



text \<open>
  Claim C6, as amended. A press that starts a drag sets the origin's
  \<open>data_type_connecting\<close> to the data type of the origin port and changes no other view.
  A view takes the origin's \<open>data_type_connecting\<close> over when a move event relayed from
  the origin reaches it: after the event the two are equal.
\<close>

theorem data_type_connecting_mirrored:
  "(node_at sc this = Some v \<and> ev_button event = LeftButton \<and> sized_to_ports v
      \<and> 0 \<le> get_hovered_port_index v
    \<longrightarrow> (\<exists>signals sc' v'. mousePressEvent this event sc = Inr (signals, sc')
           \<and> node_at sc' this = Some v' \<and> has_connection_started v'
           \<and> get_data_type (p_node_proxy v') (port_index_from v')
               = Some (data_type_connecting v')
           \<and> (\<forall>a. a \<noteq> this \<longrightarrow> node_at sc' a = node_at sc a)))
   \<and> (node_at sc2 that = Some w \<and> node_at sc2 watched = Some node
        \<and> ev_type move = GraphicsSceneMouseMove \<and> has_connection_started node
        \<and> sized_to_ports w \<and> origin_index_valid node
      \<longrightarrow> (\<exists>sc' w'. sceneEventFilter that watched move sc2 = Inr sc'
             \<and> node_at sc' that = Some w'
             \<and> data_type_connecting w' = data_type_connecting node))"
proof (intro conjI impI)
  assume a: "node_at sc this = Some v \<and> ev_button event = LeftButton \<and> sized_to_ports v
      \<and> 0 \<le> get_hovered_port_index v"
  then obtain k where k: "std_find_true (is_port_hovered v) = Some k"
    "get_hovered_port_index v = int k"
    by (auto simp: get_hovered_port_index_def split: option.splits)
  then have "k < length (proxy_ports (p_node_proxy v))"
    using std_find_true_Some a by (fastforce simp: sized_to_ports_def)
  then have d: "get_data_type (p_node_proxy v) (int k)
      = Some (data_type (proxy_ports (p_node_proxy v) ! k))"
    by (simp add: get_data_type_valid get_nports_def)
  let ?v' = "v\<lparr>has_connection_started := True, ItemIsMovable := False,
               port_index_from := int k,
               data_type_connecting := data_type (proxy_ports (p_node_proxy v) ! k)\<rparr>"
  have "mousePressEvent this event sc
      = Inr ([connection_started this (int k)], set_node sc this ?v')"
    using a k(2) d by (simp add: mousePressEvent_def Let_def)
  moreover have "node_at (set_node sc this ?v') this = Some ?v'"
    using a by (simp add: node_at_set_node)
  moreover have "\<forall>a. a \<noteq> this \<longrightarrow> node_at (set_node sc this ?v') a = node_at sc a"
    by (simp add: node_at_set_node_other)
  ultimately show "\<exists>signals sc' v'. mousePressEvent this event sc = Inr (signals, sc')
      \<and> node_at sc' this = Some v' \<and> has_connection_started v'
      \<and> get_data_type (p_node_proxy v') (port_index_from v') = Some (data_type_connecting v')
      \<and> (\<forall>a. a \<noteq> this \<longrightarrow> node_at sc' a = node_at sc a)"
    using d by (intro exI [of _ "[connection_started this (int k)]"]
        exI [of _ "set_node sc this ?v'"] exI [of _ ?v']) simp
next
  assume a: "node_at sc2 that = Some w \<and> node_at sc2 watched = Some node
      \<and> ev_type move = GraphicsSceneMouseMove \<and> has_connection_started node
      \<and> sized_to_ports w \<and> origin_index_valid node"
  then have "\<exists>changed v2 hs'.
     update_is_port_hovered (w\<lparr>data_type_connecting := data_type_connecting node\<rparr>)
         (QPointF_minus (ev_scenePos move) (scenePos w)) = Inr (changed, v2)
     \<and> sceneEventFilter that watched move sc2
         = Inr (set_node sc2 that (v2\<lparr>is_port_hovered := hs'\<rparr>))
     \<and> p_node_proxy v2 = p_node_proxy w
     \<and> data_type_connecting v2 = data_type_connecting node
     \<and> length hs' = length (is_port_hovered w)
     \<and> length (is_port_hovered v2) = length (is_port_hovered w)
     \<and> (\<forall>i < length (is_port_hovered w). hs' ! i =
           (is_port_hovered v2 ! i
            \<and> compatible (origin_port node) (proxy_ports (p_node_proxy w) ! i)))"
    by (intro sceneEventFilter_relay) simp_all
  then obtain v2 hs' where r:
    "sceneEventFilter that watched move sc2
       = Inr (set_node sc2 that (v2\<lparr>is_port_hovered := hs'\<rparr>))"
    "data_type_connecting v2 = data_type_connecting node"
    by blast
  moreover have "node_at (set_node sc2 that (v2\<lparr>is_port_hovered := hs'\<rparr>)) that
      = Some (v2\<lparr>is_port_hovered := hs'\<rparr>)"
    using a by (simp add: node_at_set_node)
  ultimately show "\<exists>sc' w'. sceneEventFilter that watched move sc2 = Inr sc'
      \<and> node_at sc' that = Some w'
      \<and> data_type_connecting w' = data_type_connecting node"
    by simp
qed

theorem data_type_connecting_mirrored_witness:
  "node_at scene_A_hover 1 = Some (N1\<lparr>is_port_hovered := [True]\<rparr>)
   \<and> get_hovered_port_index (N1\<lparr>is_port_hovered := [True]\<rparr>) = 0
   \<and> mousePressEvent 1 (left_button GraphicsSceneMousePress (5, 25)) scene_A_hover
       = Inr ([connection_started 1 0], scene_A_pressed)
   \<and> node_at scene_A_pressed 1 = Some N1_dragging
   \<and> data_type_connecting N1_dragging = ''float''
   \<and> node_at scene_A_pressed 2 = Some N2
   \<and> sceneEventFilter 2 1 (left_button GraphicsSceneMouseMove (130, 50)) scene_A_pressed
       = Inr [(1, NodeItem N1_dragging),
              (2, NodeItem (N2\<lparr>data_type_connecting := ''float''\<rparr>))]"
  using data_type_connecting_mirrored
    [of scene_A_hover 1 "N1\<lparr>is_port_hovered := [True]\<rparr>"
        "left_button GraphicsSceneMousePress (5, 25)"
        scene_A_pressed 2 N2 1 N1_dragging "left_button GraphicsSceneMouseMove (130, 50)"]
  by (simp add: example_defs scene_defs mousePressEvent_def sceneEventFilter_def
      update_is_port_hovered_def get_data_type_def get_port_def get_nports_def)

text \<open>
  Claim C6 as stated fails: right after the press on \<open>N1\<close> the drag is in progress with
  data type float, and \<open>data_type_connecting\<close> of \<open>N2\<close> is still empty.
\<close>

theorem data_type_connecting_not_mirrored_at_press_counterexample:
  "mousePressEvent 1 (left_button GraphicsSceneMousePress (5, 25)) scene_A_hover
       = Inr ([connection_started 1 0], [(1, NodeItem N1_dragging), (2, NodeItem N2)])
   \<and> has_connection_started N1_dragging
   \<and> get_data_type (p_node_proxy N1_dragging) (port_index_from N1_dragging) = Some ''float''
   \<and> data_type_connecting N2 = []"
  by (simp add: example_defs scene_defs mousePressEvent_def
      get_data_type_def get_port_def get_nports_def)

lemma compatibility_loop_origin_out_of_range:
  assumes "\<not> origin_index_valid node"
    and "\<forall>k \<in> set ks. k < length hs"
    and "\<exists>k \<in> set ks. hs ! k"
  shows "compatibility_loop ks node proxy hs = Inl (PortOutOfRange (port_index_from node))"
  using assms(2,3)
proof (induction ks)
  case Nil
  then show ?case by simp
next
  case (Cons k ks)
  have none: "get_port_type (p_node_proxy node) (port_index_from node) = None"
    using assms(1) by (auto simp: origin_index_valid_def get_port_type_def get_port_def)
  show ?case
  proof (cases "hs ! k")
    case True
    then show ?thesis
      using Cons.prems(1) by (simp add: none)
  next
    case False
    then have "\<exists>j \<in> set ks. hs ! j"
      using Cons.prems(2) by auto
    then have "compatibility_loop ks node proxy hs
        = Inl (PortOutOfRange (port_index_from node))"
      using Cons.IH Cons.prems(1) by simp
    then show ?thesis
      using False Cons.prems(1) by simp
  qed
qed

text \<open>
  Claim C7, as amended. No handler compares a port index with a port count. A relayed
  move event reads the origin port's metadata at the stored \<open>port_index_from\<close> whenever
  its hover update leaves a port of the receiving view hovered. When that index lies
  within the origin's port count and the receiving view is sized to its ports, every read
  is in range and the event is processed, whatever the event; when it lies outside, that
  read is out of range. A release reads no port metadata: on the origin of a drag it
  resolves from the hover flags of the first view under the pointer alone, and passes the
  stored index on in its signal whatever the index is.
\<close>

theorem no_port_index_check:
  "(node_at sc this = Some v \<and> node_at sc watched = Some node
      \<and> sized_to_ports v \<and> origin_index_valid node
    \<longrightarrow> (\<exists>sc'. sceneEventFilter this watched event sc = Inr sc'))
   \<and> (node_at sc this = Some v \<and> node_at sc watched = Some node
      \<and> sized_to_ports v \<and> \<not> origin_index_valid node
      \<and> ev_type event = GraphicsSceneMouseMove \<and> has_connection_started node
      \<and> update_is_port_hovered (v\<lparr>data_type_connecting := data_type_connecting node\<rparr>)
           (QPointF_minus (ev_scenePos event) (scenePos v)) = Inr (True, v2)
      \<and> True \<in> set (is_port_hovered v2)
    \<longrightarrow> sceneEventFilter this watched event sc = Inl (PortOutOfRange (port_index_from node)))
   \<and> (node_at sc2 that = Some w \<and> ev_button release = LeftButton
      \<and> has_connection_started w
    \<longrightarrow> (\<exists>sc'. mouseReleaseEvent that release sc2 =
          Inr (case first_NodeView (scene_items_at sc2 (ev_scenePos release)) of
                 None \<Rightarrow> [connection_dropped that (port_index_from w) (ev_scenePos release)]
               | Some (a, target_node) \<Rightarrow>
                   if 0 \<le> get_hovered_port_index target_node
                   then [connection_finished that (port_index_from w) a
                           (get_hovered_port_index target_node)]
                   else [connection_dropped that (port_index_from w) (ev_scenePos release)],
               sc')))"
proof (intro conjI impI)
  assume a: "node_at sc this = Some v \<and> node_at sc watched = Some node
      \<and> sized_to_ports v \<and> origin_index_valid node"
  show "\<exists>sc'. sceneEventFilter this watched event sc = Inr sc'"
  proof (cases "ev_type event = GraphicsSceneMouseMove \<and> has_connection_started node")
    case True
    with a have "\<exists>changed v2 hs'.
       update_is_port_hovered (v\<lparr>data_type_connecting := data_type_connecting node\<rparr>)
           (QPointF_minus (ev_scenePos event) (scenePos v)) = Inr (changed, v2)
       \<and> sceneEventFilter this watched event sc
           = Inr (set_node sc this (v2\<lparr>is_port_hovered := hs'\<rparr>))
       \<and> p_node_proxy v2 = p_node_proxy v
       \<and> data_type_connecting v2 = data_type_connecting node
       \<and> length hs' = length (is_port_hovered v)
       \<and> length (is_port_hovered v2) = length (is_port_hovered v)
       \<and> (\<forall>i < length (is_port_hovered v). hs' ! i =
             (is_port_hovered v2 ! i
              \<and> compatible (origin_port node) (proxy_ports (p_node_proxy v) ! i)))"
      by (intro sceneEventFilter_relay) simp_all
    then show ?thesis by blast
  next
    case False
    with a show ?thesis by (auto simp: sceneEventFilter_def)
  qed
next
  let ?v1 = "v\<lparr>data_type_connecting := data_type_connecting node\<rparr>"
  let ?p = "QPointF_minus (ev_scenePos event) (scenePos v)"
  assume a: "node_at sc this = Some v \<and> node_at sc watched = Some node
      \<and> sized_to_ports v \<and> \<not> origin_index_valid node
      \<and> ev_type event = GraphicsSceneMouseMove \<and> has_connection_started node
      \<and> update_is_port_hovered ?v1 ?p = Inr (True, v2)
      \<and> True \<in> set (is_port_hovered v2)"
  then have u: "update_is_port_hovered ?v1 ?p = Inr (True, v2)"
    and hov: "True \<in> set (is_port_hovered v2)"
    and inv: "\<not> origin_index_valid node"
    by simp_all
  have v1: "(if data_type_connecting v \<noteq> data_type_connecting node then ?v1 else v) = ?v1"
    by simp
  have len: "length (is_port_hovered ?v1) = length (port_rects (geometry ?v1))"
    using a by (simp add: sized_to_ports_def)
  from update_is_port_hovered_frame [OF len, of ?p] u
  have f: "p_node_proxy v2 = p_node_proxy v"
    "length (is_port_hovered v2) = length (is_port_hovered v)"
    by auto
  have n: "nat (get_nports (p_node_proxy v2)) = length (is_port_hovered v2)"
    using a f by (simp add: sized_to_ports_def get_nports_def)
  have "\<exists>k \<in> set [0 ..< length (is_port_hovered v2)]. is_port_hovered v2 ! k"
    using hov by (auto simp: in_set_conv_nth)
  moreover have "\<forall>k \<in> set [0 ..< length (is_port_hovered v2)]. k < length (is_port_hovered v2)"
    by simp
  ultimately have "compatibility_loop [0 ..< length (is_port_hovered v2)] node
      (p_node_proxy v2) (is_port_hovered v2) = Inl (PortOutOfRange (port_index_from node))"
    using compatibility_loop_origin_out_of_range [OF inv] by blast
  then show "sceneEventFilter this watched event sc
      = Inl (PortOutOfRange (port_index_from node))"
    using a u by (simp add: sceneEventFilter_def Let_def v1 n)
next
  assume a: "node_at sc2 that = Some w \<and> ev_button release = LeftButton
      \<and> has_connection_started w"
  then have "mouseReleaseEvent that release sc2 =
      Inr (release_signals that w release sc2, release_scene that sc2)"
    by (simp add: mouseReleaseEvent_drag)
  then show "\<exists>sc'. mouseReleaseEvent that release sc2 =
      Inr (case first_NodeView (scene_items_at sc2 (ev_scenePos release)) of
             None \<Rightarrow> [connection_dropped that (port_index_from w) (ev_scenePos release)]
           | Some (a, target_node) \<Rightarrow>
               if 0 \<le> get_hovered_port_index target_node
               then [connection_finished that (port_index_from w) a
                       (get_hovered_port_index target_node)]
               else [connection_dropped that (port_index_from w) (ev_scenePos release)],
           sc')"
    by (simp add: release_signals_def)
qed

text \<open>
  Scenario A: the relayed move over port 0 of \<open>N2\<close> and the release there are processed
  with every read in range. And with the origin's index outside its port count, the
  relayed move asks for the port the proxy does not have.
\<close>

theorem no_port_index_check_witness:
  "node_at scene_A_pressed 2 = Some N2
   \<and> node_at scene_A_pressed 1 = Some N1_dragging
   \<and> sized_to_ports N2
   \<and> origin_index_valid N1_dragging
   \<and> sceneEventFilter 2 1 (left_button GraphicsSceneMouseMove (105, 25)) scene_A_pressed
       = Inr scene_A_dragging
   \<and> has_connection_started N1_dragging
   \<and> first_NodeView (scene_items_at scene_A_dragging (105, 25)) = Some (2, N2_hovered)
   \<and> get_hovered_port_index N2_hovered = 0
   \<and> mouseReleaseEvent 1 (left_button GraphicsSceneMouseRelease (105, 25)) scene_A_dragging
       = Inr ([connection_finished 1 0 2 0],
              [(1, NodeItem N1), (2, NodeItem (N2\<lparr>is_port_hovered := [True]\<rparr>))])
   \<and> node_at scene_lost_port 2 = Some N2_hovered
   \<and> node_at scene_lost_port 1 = Some origin_lost_port
   \<and> \<not> origin_index_valid origin_lost_port
   \<and> update_is_port_hovered N2_hovered (QPointF_minus (105, 25) (scenePos N2_hovered))
       = Inr (True, N2_hovered)
   \<and> sceneEventFilter 2 1 (left_button GraphicsSceneMouseMove (105, 25)) scene_lost_port
       = Inl (PortOutOfRange 1)"
  using no_port_index_check
    [where sc = scene_A_pressed and this = 2 and v = N2 and watched = 1
       and node = N1_dragging and event = "left_button GraphicsSceneMouseMove (105, 25)"
       and ?sc2.0 = scene_A_dragging and that = 1 and w = N1_dragging
       and release = "left_button GraphicsSceneMouseRelease (105, 25)"]
    no_port_index_check
    [where sc = scene_lost_port and this = 2 and v = N2_hovered and watched = 1
       and node = origin_lost_port
       and event = "left_button GraphicsSceneMouseMove (105, 25)"
       and ?v2.0 = N2_hovered]
  by (simp add: example_defs scene_defs mouseReleaseEvent_def sceneEventFilter_def
      update_is_port_hovered_def sized_to_ports_def origin_index_valid_def
      get_port_type_def get_data_type_def get_port_def get_nports_def)

text \<open>
  Claim C7 as stated fails: the origin holds port index 1 and its proxy has one port left.
  A relayed move over the hovered port of \<open>N2\<close> asks the origin's proxy for port 1; a
  release over that port reports the connection with origin port 1 instead of a drop.
\<close>

theorem port_index_out_of_range_counterexample:
  "get_nports (p_node_proxy origin_lost_port) = 1
   \<and> port_index_from origin_lost_port = 1
   \<and> sceneEventFilter 2 1 (left_button GraphicsSceneMouseMove (105, 25)) scene_lost_port
       = Inl (PortOutOfRange 1)
   \<and> mouseReleaseEvent 1 (left_button GraphicsSceneMouseRelease (105, 25)) scene_lost_port
       = Inr ([connection_finished 1 1 2 0],
              [(1, NodeItem (N1\<lparr>is_port_hovered := [False, False], port_index_from := 1\<rparr>)),
               (2, NodeItem (N2\<lparr>is_port_hovered := [True]\<rparr>))])"
  by (simp add: example_defs scene_defs mouseReleaseEvent_def sceneEventFilter_def
      update_is_port_hovered_def get_port_type_def get_data_type_def get_port_def
      get_nports_def)

subsection \<open>Painting\<close>

lemma paint_ports_loop_calls:
  assumes "sized_to_ports v"
    and "\<forall>k \<in> set ks. k < length (proxy_ports (p_node_proxy v))"
  shows "\<exists>calls. paint_ports_loop style f v ks = Inr calls
     \<and> length calls = 2 * length ks
     \<and> (\<forall>i < length ks. ellipse_pen (calls ! (2 * i + 1)) =
           Some (if is_port_hovered v ! (ks ! i)
                 then Pen (color_port_hovered style) (thickness_selected style)
                 else if is_node_hovered v
                 then Pen (color_border_hovered style) (thickness_hovered style)
                 else Pen (color_border style) (thickness_border style)))"
  using assms(2)
proof (induction ks)
  case Nil
  then show ?case by simp
next
  case (Cons k ks)
  let ?pen = "\<lambda>k. if is_port_hovered v ! k
            then Pen (color_port_hovered style) (thickness_selected style)
            else if is_node_hovered v
            then Pen (color_border_hovered style) (thickness_hovered style)
            else Pen (color_border style) (thickness_border style)"
  from Cons obtain calls where calls:
    "paint_ports_loop style f v ks = Inr calls" "length calls = 2 * length ks"
    "\<forall>i < length ks. ellipse_pen (calls ! (2 * i + 1)) = Some (?pen (ks ! i))"
    by auto
  have k: "k < length (proxy_ports (p_node_proxy v))"
    using Cons.prems by simp
  then have len: "k < length (is_port_hovered v)" "k < length (port_rects (geometry v))"
    "k < length (port_label_rects (geometry v))"
    using assms(1) by (simp_all add: sized_to_ports_def)
  have p: "get_port (p_node_proxy v) (int k) = Some (proxy_ports (p_node_proxy v) ! k)"
    using k by (simp add: get_port_def get_nports_def)
  have "\<exists>label port. paint_ports_loop style f v (k # ks) = Inr (label # port # calls)
      \<and> ellipse_pen port = Some (?pen k)"
    using calls(1) len
    by (simp add: p get_port_type_def get_port_caption_def get_data_type_def
        Let_def split: prod.splits)
  then obtain label port where step:
    "paint_ports_loop style f v (k # ks) = Inr (label # port # calls)"
    "ellipse_pen port = Some (?pen k)"
    by blast
  have "ellipse_pen ((label # port # calls) ! (2 * i + 1)) = Some (?pen ((k # ks) ! i))"
    if "i < length (k # ks)" for i
  proof (cases i)
    case 0
    then show ?thesis using step(2) by simp
  next
    case (Suc j)
    then show ?thesis using calls(3) that by simp
  qed
  then show ?case
    using step(1) calls(2) by simp
qed

text \<open>
  Claim C8, as amended. In every painting of a view sized to its ports, the outline of
  each port follows the precedence port hovered, node hovered, default, and does not
  depend on the selection: the port-hover colour with the selection thickness when the
  port's own hover flag is set, otherwise the hovered-border colour and thickness when
  the node is hovered, otherwise the default border colour and thickness.
\<close>

theorem paint_port_outline:
  assumes "sized_to_ports v"
    and "k < length (proxy_ports (p_node_proxy v))"
  shows "port_outline style get_color_from_data_type v k =
     Some (if is_port_hovered v ! k
           then Pen (color_port_hovered style) (thickness_selected style)
           else if is_node_hovered v
           then Pen (color_border_hovered style) (thickness_hovered style)
           else Pen (color_border style) (thickness_border style))"
proof -
  let ?n = "length (proxy_ports (p_node_proxy v))"
  have "\<forall>j \<in> set [0 ..< ?n]. j < ?n"
    by simp
  from paint_ports_loop_calls [OF assms(1) this, of style get_color_from_data_type]
  obtain calls where calls:
    "paint_ports_loop style get_color_from_data_type v [0 ..< ?n] = Inr calls"
    "length calls = 2 * ?n"
    "\<forall>i < ?n. ellipse_pen (calls ! (2 * i + 1)) =
       Some (if is_port_hovered v ! i
             then Pen (color_port_hovered style) (thickness_selected style)
             else if is_node_hovered v
             then Pen (color_border_hovered style) (thickness_hovered style)
             else Pen (color_border style) (thickness_border style))"
    by auto
  have "4 + 2 * k = Suc (Suc (Suc (2 * k + 1)))"
    by simp
  then show ?thesis
    using calls assms(2)
    by (simp add: port_outline_def paint_def get_nports_def Let_def del: upt_Suc)
qed

theorem paint_port_outline_witness:
  "sized_to_ports (two_port_view\<lparr>is_port_hovered := [False, True]\<rparr>)
   \<and> port_outline example_style example_color_from_data_type
        (two_port_view\<lparr>is_port_hovered := [False, True]\<rparr>) 1
       = Some (Pen ''yellow'' 3)
   \<and> port_outline example_style example_color_from_data_type
        (two_port_view\<lparr>is_port_hovered := [False, True]\<rparr>) 0
       = Some (Pen ''black'' 1)"
  using paint_port_outline
    [of "two_port_view\<lparr>is_port_hovered := [False, True]\<rparr>" 1 example_style
        example_color_from_data_type]
    paint_port_outline
    [of "two_port_view\<lparr>is_port_hovered := [False, True]\<rparr>" 0 example_style
        example_color_from_data_type]
  by (simp add: two_port_view_def example_style_def sized_to_ports_def)

text \<open>
  Claim C8 as stated fails: the ports of a selected node are outlined with the default
  border pen, and a port that is not hovered on a hovered node, not selected, is outlined
  with the hovered-border pen.
\<close>

theorem paint_port_outline_selected_counterexample:
  "isSelected (two_port_view\<lparr>isSelected := True\<rparr>)
   \<and> port_outline example_style example_color_from_data_type
        (two_port_view\<lparr>isSelected := True\<rparr>) 0
       = Some (Pen ''black'' 1)
   \<and> Pen ''black'' 1 \<noteq> Pen (color_selected example_style) (thickness_selected example_style)
   \<and> \<not> is_port_hovered (two_port_view\<lparr>is_node_hovered := True\<rparr>) ! 0
   \<and> \<not> isSelected (two_port_view\<lparr>is_node_hovered := True\<rparr>)
   \<and> port_outline example_style example_color_from_data_type
        (two_port_view\<lparr>is_node_hovered := True\<rparr>) 0
       = Some (Pen ''grey'' 2)
   \<and> Pen ''grey'' 2 \<noteq> Pen (color_border example_style) (thickness_border example_style)"
  by (simp add: two_port_view_def example_style_def port_outline_def paint_def
      get_nports_def get_port_type_def get_port_caption_def get_data_type_def get_port_def
      border_pen_def get_caption_def port_rect_0_def port_rect_1_def QRectF_center_def
      example_color_from_data_type_def upt_rec)

end
